theory Spec2Isabelle
  imports Main
begin

unbundle bit_operations_syntax

section \<open>The stored representation\<close>

text \<open>
  \<^verbatim>\<open>safe_base<Stored, Derived, P, E>\<close> owns one datum \<^verbatim>\<open>Stored m_t\<close>. \<^verbatim>\<open>Stored\<close> is a
  fixed-width integer type: it is described by its width and its signedness
  (\<^verbatim>\<open>std::numeric_limits<Stored>::is_signed\<close>). Values are kept as mathematical integers;
  the conversion of an argument of another integer type \<^verbatim>\<open>T\<close> to \<^verbatim>\<open>Stored\<close>, which the
  initialiser \<^verbatim>\<open>m_t(t)\<close> and the assignment \<^verbatim>\<open>m_t = rhs\<close> perform, is the conversion of C++:
  the result is the value of the destination type congruent to the source modulo
  \<open>2 ^ width\<close> (for an unsigned destination in every revision of the language, for a
  signed destination since C++20 and on two's complement implementations before).
\<close>

record repr =
  width :: nat
  is_signed :: bool

definition repr_min :: "repr \<Rightarrow> int" where
  "repr_min R = (if is_signed R then - (2 ^ (width R - 1)) else 0)"

definition repr_max :: "repr \<Rightarrow> int" where
  "repr_max R = (if is_signed R then 2 ^ (width R - 1) - 1 else 2 ^ width R - 1)"

definition representable :: "repr \<Rightarrow> int \<Rightarrow> bool" where
  "representable R v = (repr_min R \<le> v \<and> v \<le> repr_max R)"

definition to_stored :: "repr \<Rightarrow> int \<Rightarrow> int" where
  "to_stored R v =
     (if is_signed R
      then (v + 2 ^ (width R - 1)) mod 2 ^ width R - 2 ^ (width R - 1)
      else v mod 2 ^ width R)"

section \<open>The exception policy and the effects of an operation\<close>

text \<open>
  \<^verbatim>\<open>E::range_error(msg)\<close> and \<^verbatim>\<open>E::overflow_error(msg)\<close> are static members of the exception
  policy \<^verbatim>\<open>E\<close>, a template parameter. A call either does not return normally (it throws
  or terminates) or returns, and then the caller goes on with the next statement. The
  policy is a parameter of the model; every call is logged.
\<close>

datatype error = RangeError string | OverflowError string

datatype action = Raise | Return

record exception_policy =
  range_error :: "string \<Rightarrow> action"
  overflow_error :: "string \<Rightarrow> action"

record safe_base =
  m_t :: int

type_synonym addr = nat

record exec_state =
  objects :: "addr \<Rightarrow> safe_base"
  calls :: "error list"

datatype 'a outcome = Raised error | Done 'a

type_synonym 'a comp = "exec_state \<Rightarrow> 'a outcome \<times> exec_state"

definition ret :: "'a \<Rightarrow> 'a comp" where
  "ret x = (\<lambda>st. (Done x, st))"

definition bind :: "'a comp \<Rightarrow> ('a \<Rightarrow> 'b comp) \<Rightarrow> 'b comp" where
  "bind m f = (\<lambda>st. case m st of
                       (Raised e, st') \<Rightarrow> (Raised e, st')
                     | (Done x, st') \<Rightarrow> f x st')"

definition call_if :: "bool \<Rightarrow> unit comp \<Rightarrow> unit comp" where
  "call_if b m = (if b then m else ret ())"

definition E_range_error :: "exception_policy \<Rightarrow> string \<Rightarrow> unit comp" where
  "E_range_error E msg = (\<lambda>st.
     (case range_error E msg of Raise \<Rightarrow> Raised (RangeError msg) | Return \<Rightarrow> Done (),
      st\<lparr>calls := calls st @ [RangeError msg]\<rparr>))"

definition E_overflow_error :: "exception_policy \<Rightarrow> string \<Rightarrow> unit comp" where
  "E_overflow_error E msg = (\<lambda>st.
     (case overflow_error E msg of Raise \<Rightarrow> Raised (OverflowError msg) | Return \<Rightarrow> Done (),
      st\<lparr>calls := calls st @ [OverflowError msg]\<rparr>))"

definition get_m_t :: "addr \<Rightarrow> int comp" where
  "get_m_t this = (\<lambda>st. (Done (m_t (objects st this)), st))"

definition set_m_t :: "addr \<Rightarrow> int \<Rightarrow> unit comp" where
  "set_m_t this v = (\<lambda>st. (Done (), st\<lparr>objects := (objects st)(this := \<lparr>m_t = v\<rparr>)\<rparr>))"

text \<open>
  What an operator hands back: \<^verbatim>\<open>Derived\<close> is a copy of the object made by
  \<^verbatim>\<open>return derived();\<close>, \<^verbatim>\<open>Derived &\<close> is a reference to the object itself.
\<close>

datatype returned = ByValue safe_base | ByRef addr

definition return_copy :: "addr \<Rightarrow> returned comp" where
  "return_copy this = (\<lambda>st. (Done (ByValue (objects st this)), st))"

definition return_ref :: "addr \<Rightarrow> returned comp" where
  "return_ref this = ret (ByRef this)"

definition deref :: "exec_state \<Rightarrow> returned \<Rightarrow> safe_base" where
  "deref st r = (case r of ByValue x \<Rightarrow> x | ByRef a \<Rightarrow> objects st a)"

section \<open>The variant and the binary operators it relies on\<close>

text \<open>
  The concrete variant \<^verbatim>\<open>Derived\<close> fixes \<^verbatim>\<open>Stored\<close> and supplies \<^verbatim>\<open>validate\<close>; its body is
  not part of \<^verbatim>\<open>safe_base.hpp\<close>, so the predicate is a parameter.
\<close>

record variant =
  stored :: repr
  validate :: "int \<Rightarrow> bool"

text \<open>
  The binary operators on a \<^verbatim>\<open>safe_base\<close> (\<^verbatim>\<open>*this + 1\<close>, \<^verbatim>\<open>*this * rhs\<close>, \<^verbatim>\<open>0 - *this\<close>, ...)
  are used by the members below but not defined in \<^verbatim>\<open>safe_base.hpp\<close> (the header holds
  them as disabled commentary only). They are a parameter: given the operator and the two
  operand values, the policy calls made and either the raw result or the error raised.
  Their operands are \<^verbatim>\<open>const\<close>: they change no object.
\<close>

datatype binop = Add | Sub | Mul | Div | Mod | BitOr | BitAnd | BitXor | Shr | Shl

type_synonym arith = "binop \<Rightarrow> int \<Rightarrow> int \<Rightarrow> error list \<times> int outcome"

definition binary :: "arith \<Rightarrow> binop \<Rightarrow> int \<Rightarrow> int \<Rightarrow> int comp" where
  "binary A op a b = (\<lambda>st. case A op a b of (cs, r) \<Rightarrow> (r, st\<lparr>calls := calls st @ cs\<rparr>))"

section \<open>Construction, accessors and assignment\<close>

text \<open>
  \<^verbatim>\<open>safe_base(T & t) : m_t(t) { if(! derived().validate(t)) E::range_error("Invalid value"); }\<close>
  The member initialiser runs first; the body validates the argument \<^verbatim>\<open>t\<close>.
\<close>

definition construct :: "variant \<Rightarrow> exception_policy \<Rightarrow> addr \<Rightarrow> int \<Rightarrow> unit comp" where
  "construct V E this t =
     bind (set_m_t this (to_stored (stored V) t)) (\<lambda>_.
       call_if (\<not> validate V t) (E_range_error E ''Invalid value''))"

text \<open>The copy constructor: \<^verbatim>\<open>safe_base(const safe_base & t) : m_t(t.m_t) {}\<close>.\<close>

definition copy_construct :: "addr \<Rightarrow> safe_base \<Rightarrow> unit comp" where
  "copy_construct this t = set_m_t this (m_t t)"

definition get_stored_value :: "safe_base \<Rightarrow> int" where
  "get_stored_value x = m_t x"

text \<open>
  \<^verbatim>\<open>operator=(const T & rhs)\<close>: validate \<^verbatim>\<open>rhs\<close>, call \<^verbatim>\<open>E::range_error\<close> when it fails, then
  \<^verbatim>\<open>m_t = rhs; return derived();\<close>.
\<close>

definition operator_assign ::
  "variant \<Rightarrow> exception_policy \<Rightarrow> addr \<Rightarrow> int \<Rightarrow> returned comp" where
  "operator_assign V E this rhs =
     bind (call_if (\<not> validate V rhs) (E_range_error E ''Invalid value passed on assignment''))
       (\<lambda>_. bind (set_m_t this (to_stored (stored V) rhs)) (\<lambda>_. return_ref this))"

section \<open>Compound assignment\<close>

text \<open>
  \<^verbatim>\<open>operator+=\<close> stores the result of the binary operator straight into the datum:
  \<^verbatim>\<open>// validate?\<close> \<^verbatim>\<open>m_t = derived() + rhs; return derived();\<close>
\<close>

definition operator_plus_assign ::
  "arith \<Rightarrow> variant \<Rightarrow> exception_policy \<Rightarrow> addr \<Rightarrow> int \<Rightarrow> returned comp" where
  "operator_plus_assign A V E this rhs =
     bind (get_m_t this) (\<lambda>x.
     bind (binary A Add x rhs) (\<lambda>r.
     bind (set_m_t this (to_stored (stored V) r)) (\<lambda>_.
     return_ref this)))"

text \<open>
  The other compound assignments have the shape \<^verbatim>\<open>*this = *this OP rhs; return derived();\<close>:
  the binary operator, then \<^verbatim>\<open>operator=\<close>.
\<close>

definition assign_through ::
  "arith \<Rightarrow> variant \<Rightarrow> exception_policy \<Rightarrow> binop \<Rightarrow> addr \<Rightarrow> int \<Rightarrow> returned comp" where
  "assign_through A V E op this rhs =
     bind (get_m_t this) (\<lambda>x.
     bind (binary A op x rhs) (\<lambda>r.
     bind (operator_assign V E this r) (\<lambda>_.
     return_ref this)))"

definition operator_minus_assign ::
  "arith \<Rightarrow> variant \<Rightarrow> exception_policy \<Rightarrow> addr \<Rightarrow> int \<Rightarrow> returned comp" where
  "operator_minus_assign A V E this rhs = assign_through A V E Sub this rhs"

definition operator_times_assign ::
  "arith \<Rightarrow> variant \<Rightarrow> exception_policy \<Rightarrow> addr \<Rightarrow> int \<Rightarrow> returned comp" where
  "operator_times_assign A V E this rhs = assign_through A V E Mul this rhs"

definition operator_div_assign ::
  "arith \<Rightarrow> variant \<Rightarrow> exception_policy \<Rightarrow> addr \<Rightarrow> int \<Rightarrow> returned comp" where
  "operator_div_assign A V E this rhs = assign_through A V E Div this rhs"

definition operator_mod_assign ::
  "arith \<Rightarrow> variant \<Rightarrow> exception_policy \<Rightarrow> addr \<Rightarrow> int \<Rightarrow> returned comp" where
  "operator_mod_assign A V E this rhs = assign_through A V E Mod this rhs"

definition operator_or_assign ::
  "arith \<Rightarrow> variant \<Rightarrow> exception_policy \<Rightarrow> addr \<Rightarrow> int \<Rightarrow> returned comp" where
  "operator_or_assign A V E this rhs = assign_through A V E BitOr this rhs"

definition operator_and_assign ::
  "arith \<Rightarrow> variant \<Rightarrow> exception_policy \<Rightarrow> addr \<Rightarrow> int \<Rightarrow> returned comp" where
  "operator_and_assign A V E this rhs = assign_through A V E BitAnd this rhs"

text \<open>\<^verbatim>\<open>operator^=\<close>, as the header has it: \<^verbatim>\<open>*this = *this * rhs; return derived();\<close>\<close>

definition operator_xor_assign ::
  "arith \<Rightarrow> variant \<Rightarrow> exception_policy \<Rightarrow> addr \<Rightarrow> int \<Rightarrow> returned comp" where
  "operator_xor_assign A V E this rhs = assign_through A V E Mul this rhs"

definition operator_shr_assign ::
  "arith \<Rightarrow> variant \<Rightarrow> exception_policy \<Rightarrow> addr \<Rightarrow> int \<Rightarrow> returned comp" where
  "operator_shr_assign A V E this rhs = assign_through A V E Shr this rhs"

definition operator_shl_assign ::
  "arith \<Rightarrow> variant \<Rightarrow> exception_policy \<Rightarrow> addr \<Rightarrow> int \<Rightarrow> returned comp" where
  "operator_shl_assign A V E this rhs = assign_through A V E Shl this rhs"

section \<open>Unary operators\<close>

text \<open>
  Prefix: \<^verbatim>\<open>Derived operator++(){ *this = *this + 1; return derived(); }\<close> and the same with
  \<^verbatim>\<open>- 1\<close>. The result is returned by value.
\<close>

definition operator_pre_inc ::
  "arith \<Rightarrow> variant \<Rightarrow> exception_policy \<Rightarrow> addr \<Rightarrow> returned comp" where
  "operator_pre_inc A V E this =
     bind (get_m_t this) (\<lambda>x.
     bind (binary A Add x 1) (\<lambda>r.
     bind (operator_assign V E this r) (\<lambda>_.
     return_copy this)))"

definition operator_pre_dec ::
  "arith \<Rightarrow> variant \<Rightarrow> exception_policy \<Rightarrow> addr \<Rightarrow> returned comp" where
  "operator_pre_dec A V E this =
     bind (get_m_t this) (\<lambda>x.
     bind (binary A Sub x 1) (\<lambda>r.
     bind (operator_assign V E this r) (\<lambda>_.
     return_copy this)))"

text \<open>
  Postfix increment:
  \<^verbatim>\<open>Stored t = m_t; if(! derived().validate(*this + 1)) E::overflow_error("Overflow on increment"); ++t; return derived();\<close>
  The increment is applied to the local \<^verbatim>\<open>t\<close>, which is not used afterwards; the local is
  kept in the model as the value \<open>t'\<close>.
\<close>

definition operator_post_inc ::
  "arith \<Rightarrow> variant \<Rightarrow> exception_policy \<Rightarrow> addr \<Rightarrow> returned comp" where
  "operator_post_inc A V E this =
     bind (get_m_t this) (\<lambda>t.
     bind (get_m_t this) (\<lambda>x.
     bind (binary A Add x 1) (\<lambda>r.
     bind (call_if (\<not> validate V r) (E_overflow_error E ''Overflow on increment'')) (\<lambda>_.
     let t' = to_stored (stored V) (t + 1) in
     return_copy this))))"

text \<open>
  Postfix decrement, declared \<^verbatim>\<open>Derived & operator--(int)\<close>:
  \<^verbatim>\<open>Stored t = m_t; if(! derived().validate(*this - 1)) E::overflow_error("Overflow on increment"); --t; return derived();\<close>
\<close>

definition operator_post_dec ::
  "arith \<Rightarrow> variant \<Rightarrow> exception_policy \<Rightarrow> addr \<Rightarrow> returned comp" where
  "operator_post_dec A V E this =
     bind (get_m_t this) (\<lambda>t.
     bind (get_m_t this) (\<lambda>x.
     bind (binary A Sub x 1) (\<lambda>r.
     bind (call_if (\<not> validate V r) (E_overflow_error E ''Overflow on increment'')) (\<lambda>_.
     let t' = to_stored (stored V) (t - 1) in
     return_ref this))))"

text \<open>
  Unary minus and bitwise complement are \<^verbatim>\<open>const\<close> members that start with a
  \<^verbatim>\<open>static_assert\<close> on \<^verbatim>\<open>std::numeric_limits<Stored>::is_signed\<close>:
  \<^verbatim>\<open>Derived operator-() const { static_assert(...); *this = 0 - *this; return derived(); }\<close>
  \<^verbatim>\<open>Derived operator~() const { static_assert(...); if(! derived().validate(~m_t)) E::overflow_error("Overflow on increment"); return derived(); }\<close>
  A member of a class template is built when it is used. The build fails when the
  \<^verbatim>\<open>static_assert\<close> fails. It fails as well when the body of a \<^verbatim>\<open>const\<close> member assigns to
  \<^verbatim>\<open>*this\<close>: there \<^verbatim>\<open>*this\<close> is a \<^verbatim>\<open>const safe_base\<close>, and every \<^verbatim>\<open>operator=\<close> of the class
  (the member template of line 90 and the implicit copy assignment) is a non-const member,
  so the call discards the qualifier and is ill-formed. Building a member gives either the
  build error or the computation of its body.
\<close>

datatype build_error = StaticAssertFailed string | DiscardsQualifiers string

definition build_member :: "bool \<Rightarrow> string \<Rightarrow> bool \<Rightarrow> bool \<Rightarrow> 'a \<Rightarrow> build_error + 'a" where
  "build_member asserted msg const_member assigns_this body =
     (if \<not> asserted then Inl (StaticAssertFailed msg)
      else if const_member \<and> assigns_this then Inl (DiscardsQualifiers ''operator='')
      else Inr body)"

text \<open>The statements of unary minus: \<^verbatim>\<open>*this = 0 - *this; return derived();\<close>\<close>

definition operator_neg_body ::
  "arith \<Rightarrow> variant \<Rightarrow> exception_policy \<Rightarrow> addr \<Rightarrow> returned comp" where
  "operator_neg_body A V E this =
     bind (get_m_t this) (\<lambda>x.
     bind (binary A Sub 0 x) (\<lambda>r.
     bind (operator_assign V E this r) (\<lambda>_.
     return_copy this)))"

text \<open>\<^verbatim>\<open>operator-() const\<close>: a \<^verbatim>\<open>const\<close> member whose body assigns to \<^verbatim>\<open>*this\<close>.\<close>

definition operator_neg ::
  "arith \<Rightarrow> variant \<Rightarrow> exception_policy \<Rightarrow> addr \<Rightarrow> build_error + returned comp" where
  "operator_neg A V E this =
     build_member (is_signed (stored V))
       ''Application of unary minus to unsigned value is an error''
       True True (operator_neg_body A V E this)"

text \<open>
  The statements of the complement:
  \<^verbatim>\<open>if(! derived().validate(~m_t)) E::overflow_error("Overflow on increment"); return derived();\<close>
\<close>

definition operator_compl_body :: "variant \<Rightarrow> exception_policy \<Rightarrow> addr \<Rightarrow> returned comp" where
  "operator_compl_body V E this =
     bind (get_m_t this) (\<lambda>x.
     bind (call_if (\<not> validate V (NOT x)) (E_overflow_error E ''Overflow on increment'')) (\<lambda>_.
     return_copy this))"

text \<open>\<^verbatim>\<open>operator~() const\<close>: a \<^verbatim>\<open>const\<close> member whose body assigns nothing.\<close>

definition operator_compl ::
  "variant \<Rightarrow> exception_policy \<Rightarrow> addr \<Rightarrow> build_error + returned comp" where
  "operator_compl V E this =
     build_member (is_signed (stored V))
       ''Bitwise inversion of unsigned value is an error''
       True False (operator_compl_body V E this)"

section \<open>Comparison operators\<close>

text \<open>
  The six relational members pass the datum and the right-hand operand to
  \<^verbatim>\<open>boost::numeric::safe_compare::less_than\<close>, \<^verbatim>\<open>greater_than\<close> and \<^verbatim>\<open>equal\<close>, which
  \<^verbatim>\<open>safe_compare.hpp\<close> defines. The three primitives are a parameter; the right-hand operand
  has any type \<open>'u\<close>.
\<close>

record 'u comparator =
  cmp_less_than :: "int \<Rightarrow> 'u \<Rightarrow> bool"
  cmp_greater_than :: "int \<Rightarrow> 'u \<Rightarrow> bool"
  cmp_equal :: "int \<Rightarrow> 'u \<Rightarrow> bool"

definition operator_lt :: "'u comparator \<Rightarrow> safe_base \<Rightarrow> 'u \<Rightarrow> bool" where
  "operator_lt C x rhs = cmp_less_than C (m_t x) rhs"

definition operator_gt :: "'u comparator \<Rightarrow> safe_base \<Rightarrow> 'u \<Rightarrow> bool" where
  "operator_gt C x rhs = cmp_greater_than C (m_t x) rhs"

definition operator_eq :: "'u comparator \<Rightarrow> safe_base \<Rightarrow> 'u \<Rightarrow> bool" where
  "operator_eq C x rhs = cmp_equal C (m_t x) rhs"

definition operator_ne :: "'u comparator \<Rightarrow> safe_base \<Rightarrow> 'u \<Rightarrow> bool" where
  "operator_ne C x rhs = (\<not> cmp_equal C (m_t x) rhs)"

definition operator_ge :: "'u comparator \<Rightarrow> safe_base \<Rightarrow> 'u \<Rightarrow> bool" where
  "operator_ge C x rhs = (\<not> cmp_less_than C (m_t x) rhs)"

definition operator_le :: "'u comparator \<Rightarrow> safe_base \<Rightarrow> 'u \<Rightarrow> bool" where
  "operator_le C x rhs = (\<not> cmp_greater_than C (m_t x) rhs)"

section \<open>Parts the header uses and does not define\<close>

text \<open>
  Modelled from the spec: \<^verbatim>\<open>Derived::validate\<close>, the validation predicate of a variant, is
  not in \<^verbatim>\<open>safe_base.hpp\<close>. The spec's glossary: the representable domain is the closed
  range of raw values a variant accepts as valid, and validation decides whether a raw
  value belongs to it.
\<close>

definition in_domain :: "int \<Rightarrow> int \<Rightarrow> int \<Rightarrow> bool" where
  "in_domain lo hi v = (lo \<le> v \<and> v \<le> hi)"

definition safe_range :: "repr \<Rightarrow> int \<Rightarrow> int \<Rightarrow> variant" where
  "safe_range R lo hi = \<lparr>stored = R, validate = in_domain lo hi\<rparr>"

text \<open>
  Modelled from the spec: the binary operators of a SafeValue are missing from the header.
  The spec's design note: each operation takes two operands and the promotion policy,
  computes the promoted-representation exact result, range-checks it against the
  destination domain, and invokes \<^verbatim>\<open>overflow_error\<close> on failure, shift operators
  additionally rejecting negative left-hand operands and shift amounts exceeding the
  operand's bit width. The promoted representation holds the exact result by the promotion
  policy's contract, so the result is computed on the integers; division and remainder
  truncate as in C++, and a zero divisor, which has no exact result, is rejected. As
  everywhere in the header, a policy call that returns is followed by the next statement:
  the operator then yields the computed value. The spec gives no message text.
\<close>

definition trunc_div :: "int \<Rightarrow> int \<Rightarrow> int" where
  "trunc_div a b = sgn a * sgn b * (\<bar>a\<bar> div \<bar>b\<bar>)"

definition exact :: "binop \<Rightarrow> int \<Rightarrow> int \<Rightarrow> int" where
  "exact op a b =
     (case op of
        Add \<Rightarrow> a + b
      | Sub \<Rightarrow> a - b
      | Mul \<Rightarrow> a * b
      | Div \<Rightarrow> trunc_div a b
      | Mod \<Rightarrow> a - b * trunc_div a b
      | BitOr \<Rightarrow> a OR b
      | BitAnd \<Rightarrow> a AND b
      | BitXor \<Rightarrow> a XOR b
      | Shr \<Rightarrow> drop_bit (nat b) a
      | Shl \<Rightarrow> push_bit (nat b) a)"

definition rejected :: "repr \<Rightarrow> binop \<Rightarrow> int \<Rightarrow> int \<Rightarrow> bool" where
  "rejected R op a b =
     (case op of
        Shr \<Rightarrow> a < 0 \<or> int (width R) < b
      | Shl \<Rightarrow> a < 0 \<or> int (width R) < b
      | Div \<Rightarrow> b = 0
      | Mod \<Rightarrow> b = 0
      | _ \<Rightarrow> False)"

definition overflow_msg :: string where
  "overflow_msg = ''Overflow''"

definition checked :: "exception_policy \<Rightarrow> repr \<Rightarrow> (int \<Rightarrow> bool) \<Rightarrow> arith" where
  "checked E R dest op a b =
     (let r = exact op a b in
      if dest r \<and> \<not> rejected R op a b then ([], Done r)
      else ([OverflowError overflow_msg],
            case overflow_error E overflow_msg of
              Raise \<Rightarrow> Raised (OverflowError overflow_msg)
            | Return \<Rightarrow> Done r))"

text \<open>
  Modelled from the spec: \<^verbatim>\<open>safe_compare.hpp\<close> is not among the sources. The spec's
  algorithm: if both operands share signedness, compare directly in a sufficiently wide
  common representation. If signedness differs: a negative operand is always strictly less
  than a non-negative operand, regardless of magnitude; otherwise (both non-negative) widen
  the signed operand's value into the unsigned domain and compare magnitudes exactly.
  \<^verbatim>\<open>equal\<close> follows directly from \<^verbatim>\<open>!less_than(a,b) && !less_than(b,a)\<close>. An operand is a
  value together with the signedness of its type; the unsigned domain is \<open>nat\<close>.
\<close>

datatype operand = Signed int | Unsigned nat

definition less_than_cmp :: "operand \<Rightarrow> operand \<Rightarrow> bool" where
  "less_than_cmp a b =
     (case (a, b) of
        (Signed x, Signed y) \<Rightarrow> x < y
      | (Unsigned x, Unsigned y) \<Rightarrow> x < y
      | (Signed x, Unsigned y) \<Rightarrow> (if x < 0 then True else nat x < y)
      | (Unsigned x, Signed y) \<Rightarrow> (if y < 0 then False else x < nat y))"

definition equal_cmp :: "operand \<Rightarrow> operand \<Rightarrow> bool" where
  "equal_cmp a b = (\<not> less_than_cmp a b \<and> \<not> less_than_cmp b a)"

definition value_of :: "operand \<Rightarrow> int" where
  "value_of a = (case a of Signed x \<Rightarrow> x | Unsigned n \<Rightarrow> int n)"

section \<open>Concrete variants, policies and states\<close>

definition int8_t :: repr where
  "int8_t = \<lparr>width = 8, is_signed = True\<rparr>"

definition int32_t :: repr where
  "int32_t = \<lparr>width = 32, is_signed = True\<rparr>"

definition uint32_t :: repr where
  "uint32_t = \<lparr>width = 32, is_signed = False\<rparr>"

definition throwing :: exception_policy where
  "throwing = \<lparr>range_error = (\<lambda>_. Raise), overflow_error = (\<lambda>_. Raise)\<rparr>"

definition returning :: exception_policy where
  "returning = \<lparr>range_error = (\<lambda>_. Return), overflow_error = (\<lambda>_. Return)\<rparr>"

text \<open>
  The spec's examples: the signed 8-bit domain \<open>[-128, 127]\<close>, the unsigned 32-bit domain
  \<open>[0, 4294967295]\<close>, and a variant whose domain \<open>[0, 10]\<close> is smaller than its 32-bit
  signed representation.
\<close>

definition I8 :: variant where
  "I8 = safe_range int8_t (- 128) 127"

definition U32 :: variant where
  "U32 = safe_range uint32_t 0 4294967295"

definition R0_10 :: variant where
  "R0_10 = safe_range int32_t 0 10"

text \<open>A state with one object of datum \<open>v\<close> at every address and no policy call made.\<close>

definition start :: "int \<Rightarrow> exec_state" where
  "start v = \<lparr>objects = (\<lambda>_. \<lparr>m_t = v\<rparr>), calls = []\<rparr>"

section \<open>The validity invariant\<close>

text \<open>
  A variant is well formed when its type has at least one bit and its predicate accepts
  only values that the stored type can represent, so that converting an accepted value to
  \<^verbatim>\<open>Stored\<close> does not change it.
\<close>

definition wf_variant :: "variant \<Rightarrow> bool" where
  "wf_variant V =
     (0 < width (stored V) \<and> (\<forall>v. validate V v \<longrightarrow> representable (stored V) v))"

text \<open>
  The result \<open>res\<close> of running an operator on the object at \<open>this\<close> from the state \<open>st\<close>:
  when the operator completes, the datum it leaves is accepted by the predicate; when it
  raises, no object has been changed.
\<close>

definition revalidated ::
  "variant \<Rightarrow> addr \<Rightarrow> exec_state \<Rightarrow> 'a outcome \<times> exec_state \<Rightarrow> bool" where
  "revalidated V this st res =
     (case res of
        (Done _, st') \<Rightarrow> validate V (m_t (objects st' this))
      | (Raised _, st') \<Rightarrow> objects st' = objects st)"

section \<open>Basic facts\<close>

lemmas exec_defs = ret_def bind_def call_if_def E_range_error_def E_overflow_error_def
  get_m_t_def set_m_t_def return_copy_def return_ref_def binary_def

lemma I8_simps:
  "stored I8 = int8_t" "validate I8 v = (- 128 \<le> v \<and> v \<le> 127)"
  by (simp_all add: I8_def safe_range_def in_domain_def)

lemma U32_simps:
  "stored U32 = uint32_t" "validate U32 v = (0 \<le> v \<and> v \<le> 4294967295)"
  by (simp_all add: U32_def safe_range_def in_domain_def)

lemma R0_10_simps:
  "stored R0_10 = int32_t" "validate R0_10 v = (0 \<le> v \<and> v \<le> 10)"
  by (simp_all add: R0_10_def safe_range_def in_domain_def)

lemma exact_simps:
  "exact Add a b = a + b" "exact Sub a b = a - b" "exact Mul a b = a * b"
  "exact BitXor a b = a XOR b"
  by (simp_all add: exact_def)

lemma rejected_simps:
  "\<not> rejected R Add a b" "\<not> rejected R Sub a b" "\<not> rejected R Mul a b"
  "\<not> rejected R BitXor a b"
  by (simp_all add: rejected_def)

text \<open>A value that the stored type represents is stored unchanged.\<close>

lemma to_stored_representable:
  assumes "0 < width R" and "representable R v"
  shows "to_stored R v = v"
proof (cases "is_signed R")
  case True
  from assms(1) have w: "(2::int) ^ width R = 2 * 2 ^ (width R - 1)"
    by (cases "width R") simp_all
  from True assms(2) have "0 \<le> v + 2 ^ (width R - 1)" "v + 2 ^ (width R - 1) < 2 ^ width R"
    unfolding representable_def repr_min_def repr_max_def w by simp_all
  then have "(v + 2 ^ (width R - 1)) mod 2 ^ width R = v + 2 ^ (width R - 1)"
    by simp
  with True show ?thesis by (simp add: to_stored_def)
next
  case False
  with assms(2) have "0 \<le> v" "v < 2 ^ width R"
    unfolding representable_def repr_min_def repr_max_def by simp_all
  with False show ?thesis by (simp add: to_stored_def)
qed

lemma wf_I8: "wf_variant I8"
  by (simp add: wf_variant_def I8_simps int8_t_def representable_def repr_min_def repr_max_def)

section \<open>Value construction\<close>

text \<open>
  C10. Value construction writes the datum before it validates. For every raw input that
  the predicate rejects, the constructor calls \<open>range_error("Invalid value")\<close> once; the
  datum written is the input converted to the stored type, whether the call returns or
  not, and when the call returns the construction completes with that datum. The datum
  equals the input whenever the stored type represents the input.
\<close>

theorem construct_stores_converted:
  assumes "\<not> validate V t"
  shows "construct V E this t st =
     (case range_error E ''Invalid value'' of
        Raise \<Rightarrow> Raised (RangeError ''Invalid value'')
      | Return \<Rightarrow> Done (),
      st\<lparr>objects := (objects st)(this := \<lparr>m_t = to_stored (stored V) t\<rparr>),
         calls := calls st @ [RangeError ''Invalid value'']\<rparr>) \<and>
     (0 < width (stored V) \<and> representable (stored V) t \<longrightarrow> to_stored (stored V) t = t)"
  using assms to_stored_representable [of "stored V" t]
  by (simp add: construct_def exec_defs split: action.split)

theorem construct_stores_converted_witness:
  "\<not> validate R0_10 11 \<and> 0 < width (stored R0_10) \<and> representable (stored R0_10) 11 \<and>
   construct R0_10 returning 0 11 (start 0) =
     (Done (), \<lparr>objects = (\<lambda>_. \<lparr>m_t = 0\<rparr>)(0 := \<lparr>m_t = 11\<rparr>),
                calls = [RangeError ''Invalid value'']\<rparr>)"
  using construct_stores_converted [of R0_10 11 returning 0 "start 0"]
  by (simp add: R0_10_simps returning_def start_def int32_t_def representable_def
      repr_min_def repr_max_def)

text \<open>
  The unsigned 32-bit variant constructed from 4294967296 under a policy that returns: the
  object exists and its datum is 0, not the input.
\<close>

theorem construct_truncates:
  "\<not> validate U32 4294967296 \<and>
   fst (construct U32 returning 0 4294967296 (start 7)) = Done () \<and>
   m_t (objects (snd (construct U32 returning 0 4294967296 (start 7))) 0) = 0"
  by (simp add: U32_simps construct_def exec_defs returning_def start_def
      to_stored_def uint32_t_def)

section \<open>Assignment\<close>

text \<open>
  C2. For every assignment argument that the predicate rejects, \<open>operator=\<close> calls
  \<open>range_error("Invalid value passed on assignment")\<close> once. When the call does not return
  normally the state is the one before, with the call logged: the datum is unchanged. When
  the call returns, the assignment takes effect: the datum becomes the argument converted
  to the stored type.
\<close>

theorem assign_out_of_domain:
  assumes "\<not> validate V rhs"
  shows "operator_assign V E this rhs st =
     (case range_error E ''Invalid value passed on assignment'' of
        Raise \<Rightarrow>
          (Raised (RangeError ''Invalid value passed on assignment''),
           st\<lparr>calls := calls st @ [RangeError ''Invalid value passed on assignment'']\<rparr>)
      | Return \<Rightarrow>
          (Done (ByRef this),
           st\<lparr>objects := (objects st)(this := \<lparr>m_t = to_stored (stored V) rhs\<rparr>),
              calls := calls st @ [RangeError ''Invalid value passed on assignment'']\<rparr>))"
  using assms by (simp add: operator_assign_def exec_defs split: action.split)

theorem assign_out_of_domain_witness:
  "\<not> validate U32 4294967296 \<and>
   operator_assign U32 throwing 0 4294967296 (start 4294967295) =
     (Raised (RangeError ''Invalid value passed on assignment''),
      \<lparr>objects = (\<lambda>_. \<lparr>m_t = 4294967295\<rparr>),
       calls = [RangeError ''Invalid value passed on assignment'']\<rparr>)"
  using assign_out_of_domain [of U32 4294967296 throwing 0 "start 4294967295"]
  by (simp add: U32_simps throwing_def start_def)

text \<open>
  The spec's example under a policy that returns: the object holds the valid datum
  4294967295, 4294967296 is assigned, \<open>range_error\<close> is called and returns, and the datum
  is 0 afterwards.
\<close>

theorem assign_takes_effect:
  "validate U32 (m_t (objects (start 4294967295) 0)) \<and>
   \<not> validate U32 4294967296 \<and>
   fst (operator_assign U32 returning 0 4294967296 (start 4294967295)) = Done (ByRef 0) \<and>
   calls (snd (operator_assign U32 returning 0 4294967296 (start 4294967295))) =
     [RangeError ''Invalid value passed on assignment''] \<and>
   m_t (objects (start 4294967295) 0) = 4294967295 \<and>
   m_t (objects (snd (operator_assign U32 returning 0 4294967296 (start 4294967295))) 0) = 0"
  by (simp add: U32_simps operator_assign_def exec_defs returning_def start_def
      to_stored_def uint32_t_def)

section \<open>Postfix operators and complement leave the objects alone\<close>

lemma post_inc_objects: "objects (snd (operator_post_inc A V E this st)) = objects st"
  by (simp add: operator_post_inc_def exec_defs split: prod.split outcome.split action.split)

lemma post_dec_objects: "objects (snd (operator_post_dec A V E this st)) = objects st"
  by (simp add: operator_post_dec_def exec_defs split: prod.split outcome.split action.split)

lemma compl_objects:
  "operator_compl V E this = Inr m \<Longrightarrow> objects (snd (m st)) = objects st"
  by (auto simp: operator_compl_def operator_compl_body_def build_member_def exec_defs
      split: if_splits action.split)

section \<open>The invariant under a policy that raises\<close>

lemma revalidated_calls [simp]:
  "revalidated V this (st\<lparr>calls := cs\<rparr>) res = revalidated V this st res"
  by (simp add: revalidated_def split: prod.split outcome.split)

lemma assign_revalidated:
  assumes "wf_variant V" and "\<forall>msg. range_error E msg = Raise"
  shows "revalidated V this st (operator_assign V E this rhs st)"
proof (cases "validate V rhs")
  case True
  with assms(1) have "to_stored (stored V) rhs = rhs"
    by (simp add: wf_variant_def to_stored_representable)
  with True show ?thesis
    by (simp add: revalidated_def operator_assign_def exec_defs)
next
  case False
  with assms(2) show ?thesis
    by (simp add: revalidated_def operator_assign_def exec_defs)
qed

text \<open>The common shape \<^verbatim>\<open>*this = a OP b; return derived();\<close>.\<close>

lemma binary_then_assign_revalidated:
  assumes "wf_variant V" and "\<forall>msg. range_error E msg = Raise"
    and k: "k = return_ref \<or> k = return_copy"
  shows "revalidated V this st
     (bind (binary A op a b) (\<lambda>r. bind (operator_assign V E this r) (\<lambda>_. k this)) st)"
proof (cases "A op a b")
  case (Pair cs res)
  show ?thesis
  proof (cases res)
    case (Raised e)
    with Pair show ?thesis
      by (simp add: revalidated_def bind_def binary_def)
  next
    case (Done r)
    have "revalidated V this (st\<lparr>calls := calls st @ cs\<rparr>)
            (operator_assign V E this r (st\<lparr>calls := calls st @ cs\<rparr>))"
      using assms(1,2) by (rule assign_revalidated)
    with Pair Done k show ?thesis
      by (auto simp: revalidated_def bind_def binary_def return_ref_def return_copy_def ret_def
          split: prod.splits outcome.splits)
  qed
qed

lemma assign_through_revalidated:
  assumes "wf_variant V" and "\<forall>msg. range_error E msg = Raise"
  shows "revalidated V this st (assign_through A V E op this rhs st)"
proof -
  have "assign_through A V E op this rhs st =
      bind (binary A op (m_t (objects st this)) rhs)
        (\<lambda>r. bind (operator_assign V E this r) (\<lambda>_. return_ref this)) st"
    by (simp add: assign_through_def get_m_t_def bind_def)
  with binary_then_assign_revalidated [OF assms, of return_ref this st A op]
  show ?thesis by simp
qed

lemma pre_inc_revalidated:
  assumes "wf_variant V" and "\<forall>msg. range_error E msg = Raise"
  shows "revalidated V this st (operator_pre_inc A V E this st)"
proof -
  have "operator_pre_inc A V E this st =
      bind (binary A Add (m_t (objects st this)) 1)
        (\<lambda>r. bind (operator_assign V E this r) (\<lambda>_. return_copy this)) st"
    by (simp add: operator_pre_inc_def get_m_t_def bind_def)
  with binary_then_assign_revalidated [OF assms, of return_copy this st A Add]
  show ?thesis by simp
qed

lemma pre_dec_revalidated:
  assumes "wf_variant V" and "\<forall>msg. range_error E msg = Raise"
  shows "revalidated V this st (operator_pre_dec A V E this st)"
proof -
  have "operator_pre_dec A V E this st =
      bind (binary A Sub (m_t (objects st this)) 1)
        (\<lambda>r. bind (operator_assign V E this r) (\<lambda>_. return_copy this)) st"
    by (simp add: operator_pre_dec_def get_m_t_def bind_def)
  with binary_then_assign_revalidated [OF assms, of return_copy this st A Sub]
  show ?thesis by simp
qed

lemma neg_body_revalidated:
  assumes "wf_variant V" and "\<forall>msg. range_error E msg = Raise"
  shows "revalidated V this st (operator_neg_body A V E this st)"
proof -
  have "operator_neg_body A V E this st =
      bind (binary A Sub 0 (m_t (objects st this)))
        (\<lambda>r. bind (operator_assign V E this r) (\<lambda>_. return_copy this)) st"
    by (simp add: operator_neg_body_def get_m_t_def bind_def)
  with binary_then_assign_revalidated [OF assms, of return_copy this st A Sub 0]
  show ?thesis by simp
qed

lemma construct_validated:
  assumes "wf_variant V" and "\<forall>msg. range_error E msg = Raise"
    and "construct V E this t st = (Done u, st')"
  shows "validate V (m_t (objects st' this))"
proof (cases "validate V t")
  case True
  with assms(1) have "to_stored (stored V) t = t"
    by (simp add: wf_variant_def to_stored_representable)
  with True assms(3) show ?thesis
    by (auto simp: construct_def exec_defs)
next
  case False
  with assms(2,3) show ?thesis
    by (simp add: construct_def exec_defs)
qed

text \<open>
  C1. Let the variant be well formed and let \<open>range_error\<close> never return normally. Then a
  value construction that completes leaves a datum accepted by the predicate; assignment,
  the compound assignments \<open>-= *= /= %= |= &= ^= >>= <<=\<close>, prefix increment and decrement
  and the statements of unary minus each either complete with a datum accepted by the
  predicate or raise with every object unchanged; and postfix increment, postfix decrement and complement
  keep an accepted datum accepted. (\<open>operator+=\<close> is not covered.)
\<close>

theorem revalidation_with_raising_policy:
  assumes "wf_variant V" and "\<forall>msg. range_error E msg = Raise"
  shows "(\<forall>u st'. construct V E this t st = (Done u, st') \<longrightarrow>
            validate V (m_t (objects st' this))) \<and>
    revalidated V this st (operator_assign V E this rhs st) \<and>
    revalidated V this st (operator_minus_assign A V E this rhs st) \<and>
    revalidated V this st (operator_times_assign A V E this rhs st) \<and>
    revalidated V this st (operator_div_assign A V E this rhs st) \<and>
    revalidated V this st (operator_mod_assign A V E this rhs st) \<and>
    revalidated V this st (operator_or_assign A V E this rhs st) \<and>
    revalidated V this st (operator_and_assign A V E this rhs st) \<and>
    revalidated V this st (operator_xor_assign A V E this rhs st) \<and>
    revalidated V this st (operator_shr_assign A V E this rhs st) \<and>
    revalidated V this st (operator_shl_assign A V E this rhs st) \<and>
    revalidated V this st (operator_pre_inc A V E this st) \<and>
    revalidated V this st (operator_pre_dec A V E this st) \<and>
    revalidated V this st (operator_neg_body A V E this st) \<and>
    (validate V (m_t (objects st this)) \<longrightarrow>
       validate V (m_t (objects (snd (operator_post_inc A V E this st)) this)) \<and>
       validate V (m_t (objects (snd (operator_post_dec A V E this st)) this)) \<and>
       (\<forall>m. operator_compl V E this = Inr m \<longrightarrow>
          validate V (m_t (objects (snd (m st)) this))))"
proof -
  note thru = assign_through_revalidated [OF assms]
  have "\<forall>u st'. construct V E this t st = (Done u, st') \<longrightarrow>
      validate V (m_t (objects st' this))"
    using construct_validated [OF assms] by blast
  moreover have "revalidated V this st (operator_assign V E this rhs st)"
    using assms by (rule assign_revalidated)
  moreover have "revalidated V this st (operator_minus_assign A V E this rhs st)"
    "revalidated V this st (operator_times_assign A V E this rhs st)"
    "revalidated V this st (operator_div_assign A V E this rhs st)"
    "revalidated V this st (operator_mod_assign A V E this rhs st)"
    "revalidated V this st (operator_or_assign A V E this rhs st)"
    "revalidated V this st (operator_and_assign A V E this rhs st)"
    "revalidated V this st (operator_xor_assign A V E this rhs st)"
    "revalidated V this st (operator_shr_assign A V E this rhs st)"
    "revalidated V this st (operator_shl_assign A V E this rhs st)"
    unfolding operator_minus_assign_def operator_times_assign_def operator_div_assign_def
      operator_mod_assign_def operator_or_assign_def operator_and_assign_def
      operator_xor_assign_def operator_shr_assign_def operator_shl_assign_def
    by (rule thru)+
  moreover have "revalidated V this st (operator_pre_inc A V E this st)"
    "revalidated V this st (operator_pre_dec A V E this st)"
    using assms by (rule pre_inc_revalidated, rule pre_dec_revalidated)
  moreover have "revalidated V this st (operator_neg_body A V E this st)"
    using assms by (rule neg_body_revalidated)
  moreover have "validate V (m_t (objects st this)) \<longrightarrow>
       validate V (m_t (objects (snd (operator_post_inc A V E this st)) this)) \<and>
       validate V (m_t (objects (snd (operator_post_dec A V E this st)) this)) \<and>
       (\<forall>m. operator_compl V E this = Inr m \<longrightarrow>
          validate V (m_t (objects (snd (m st)) this)))"
    by (simp add: post_inc_objects post_dec_objects compl_objects)
  ultimately show ?thesis by blast
qed

theorem revalidation_with_raising_policy_witness:
  "wf_variant I8 \<and> (\<forall>msg. range_error throwing msg = Raise) \<and>
   construct I8 throwing 0 5 (start 0) =
     (Done (), \<lparr>objects = (\<lambda>_. \<lparr>m_t = 0\<rparr>)(0 := \<lparr>m_t = 5\<rparr>), calls = []\<rparr>) \<and>
   validate I8 (m_t (objects \<lparr>objects = (\<lambda>_. \<lparr>m_t = 0\<rparr>)(0 := \<lparr>m_t = 5\<rparr>), calls = []\<rparr> 0)) \<and>
   revalidated I8 0 (start 5) (operator_assign I8 throwing 0 200 (start 5)) \<and>
   revalidated I8 0 (start 5)
     (operator_minus_assign (checked throwing int8_t (validate I8)) I8 throwing 0 200 (start 5))"
proof -
  have wf: "wf_variant I8" by (rule wf_I8)
  have raising: "\<forall>msg. range_error throwing msg = Raise" by (simp add: throwing_def)
  have c: "construct I8 throwing 0 5 (start 0) =
     (Done (), \<lparr>objects = (\<lambda>_. \<lparr>m_t = 0\<rparr>)(0 := \<lparr>m_t = 5\<rparr>), calls = []\<rparr>)"
    by (simp add: construct_def exec_defs I8_simps to_stored_def int8_t_def start_def)
  from revalidation_with_raising_policy [OF wf raising,
      of 0 5 "start 0" 200 "checked throwing int8_t (validate I8)"] c
  have "validate I8 (m_t (objects \<lparr>objects = (\<lambda>_. \<lparr>m_t = 0\<rparr>)(0 := \<lparr>m_t = 5\<rparr>), calls = []\<rparr> 0))"
    by blast
  moreover from revalidation_with_raising_policy [OF wf raising,
      of 0 5 "start 5" 200 "checked throwing int8_t (validate I8)"]
  have "revalidated I8 0 (start 5) (operator_assign I8 throwing 0 200 (start 5))"
    "revalidated I8 0 (start 5)
     (operator_minus_assign (checked throwing int8_t (validate I8)) I8 throwing 0 200 (start 5))"
    by blast+
  ultimately show ?thesis using wf raising c by blast
qed

text \<open>
  Under a policy that returns, the variant with domain \<open>[0, 10]\<close> constructed from 42: the
  construction completes, and the accessor reads 42, which the predicate rejects.
\<close>

theorem construct_keeps_invalid_datum:
  "construct R0_10 returning 0 42 (start 0) =
     (Done (), \<lparr>objects = (\<lambda>_. \<lparr>m_t = 0\<rparr>)(0 := \<lparr>m_t = 42\<rparr>),
                calls = [RangeError ''Invalid value'']\<rparr>) \<and>
   get_stored_value (objects (snd (construct R0_10 returning 0 42 (start 0))) 0) = 42 \<and>
   \<not> validate R0_10 42"
  by (simp add: construct_def exec_defs R0_10_simps to_stored_def int32_t_def start_def
      returning_def get_stored_value_def)

section \<open>Compound assignment\<close>

text \<open>
  \<open>operator+=\<close> against its sibling \<open>operator-=\<close>, on the variant with domain \<open>[0, 10]\<close>
  holding 10, with binary operators that check their result against the 32-bit
  representation only: \<open>x += 5\<close> completes with the datum 15, which the predicate rejects,
  and calls no policy; \<open>x -= -5\<close> calls \<open>range_error\<close> and leaves 10.
\<close>

lemma plus_assign_skips_validation:
  "operator_plus_assign (checked throwing int32_t (representable int32_t)) R0_10 throwing 0 5
       (start 10) =
     (Done (ByRef 0), \<lparr>objects = (\<lambda>_. \<lparr>m_t = 10\<rparr>)(0 := \<lparr>m_t = 15\<rparr>), calls = []\<rparr>) \<and>
   \<not> validate R0_10 15 \<and>
   operator_minus_assign (checked throwing int32_t (representable int32_t)) R0_10 throwing 0 (- 5)
       (start 10) =
     (Raised (RangeError ''Invalid value passed on assignment''),
      \<lparr>objects = (\<lambda>_. \<lparr>m_t = 10\<rparr>),
       calls = [RangeError ''Invalid value passed on assignment'']\<rparr>)"
  by (simp add: operator_plus_assign_def operator_minus_assign_def assign_through_def
        operator_assign_def exec_defs R0_10_simps checked_def
        exact_simps rejected_simps start_def to_stored_def int32_t_def representable_def
        repr_min_def repr_max_def throwing_def)

text \<open>
  C5. \<open>operator^=\<close> is the same computation as \<open>operator*=\<close>, for every arithmetic layer,
  variant, policy, object and operand. On the signed 8-bit variant holding 2, \<open>x ^= 3\<close>
  stores 6, while the bitwise-xor operator gives \<open>2 ^ 3 = 1\<close>.
\<close>

theorem xor_assign_multiplies:
  "operator_xor_assign A V E this rhs = operator_times_assign A V E this rhs \<and>
   checked throwing int8_t (validate I8) BitXor 2 3 = ([], Done 1) \<and>
   operator_xor_assign (checked throwing int8_t (validate I8)) I8 throwing 0 3 (start 2) =
     (Done (ByRef 0), \<lparr>objects = (\<lambda>_. \<lparr>m_t = 2\<rparr>)(0 := \<lparr>m_t = 6\<rparr>), calls = []\<rparr>)"
  by (simp add: operator_xor_assign_def operator_times_assign_def)
     (simp add: assign_through_def operator_assign_def exec_defs I8_simps checked_def
        exact_simps rejected_simps start_def to_stored_def int8_t_def)

section \<open>Prefix increment\<close>

text \<open>
  With a binary \<open>+\<close> that checks its result against the 32-bit representation only, the
  error of the prefix increment at 127 is the \<open>range_error\<close> of \<open>operator=\<close>.
\<close>

lemma pre_inc_unchecked_plus:
  "operator_pre_inc (checked throwing int32_t (representable int32_t)) I8 throwing 0 (start 127) =
     (Raised (RangeError ''Invalid value passed on assignment''),
      \<lparr>objects = (\<lambda>_. \<lparr>m_t = 127\<rparr>),
       calls = [RangeError ''Invalid value passed on assignment'']\<rparr>)"
  by (simp add: operator_pre_inc_def operator_assign_def exec_defs I8_simps checked_def
        exact_simps rejected_simps int32_t_def start_def throwing_def representable_def
        repr_min_def repr_max_def)

text \<open>
  C4. The signed 8-bit variant holds 127 and the binary \<open>+\<close> checks its result against the
  variant's domain. Prefix increment then calls \<open>overflow_error\<close> first. When that call
  does not return normally, nothing is stored: the state is the one before, with the call
  logged. When it returns, \<open>operator=\<close> validates 128 and calls \<open>range_error\<close>; when that
  call does not return normally either, nothing is stored; when both calls return, the
  datum becomes the wrapped \<open>-128\<close>.
\<close>

theorem prefix_increment_at_max:
  assumes "m_t (objects st this) = 127"
  shows "operator_pre_inc (checked E int8_t (validate I8)) I8 E this st =
     (case overflow_error E overflow_msg of
        Raise \<Rightarrow>
          (Raised (OverflowError overflow_msg),
           st\<lparr>calls := calls st @ [OverflowError overflow_msg]\<rparr>)
      | Return \<Rightarrow>
          (case range_error E ''Invalid value passed on assignment'' of
             Raise \<Rightarrow>
               (Raised (RangeError ''Invalid value passed on assignment''),
                st\<lparr>calls := calls st @ [OverflowError overflow_msg,
                        RangeError ''Invalid value passed on assignment'']\<rparr>)
           | Return \<Rightarrow>
               (Done (ByValue \<lparr>m_t = - 128\<rparr>),
                st\<lparr>objects := (objects st)(this := \<lparr>m_t = - 128\<rparr>),
                   calls := calls st @ [OverflowError overflow_msg,
                        RangeError ''Invalid value passed on assignment'']\<rparr>)))"
  using assms
  by (simp add: operator_pre_inc_def operator_assign_def exec_defs I8_simps checked_def
        exact_simps rejected_simps to_stored_def int8_t_def split: action.split)

theorem prefix_increment_at_max_witness:
  "m_t (objects (start 127) 0) = 127 \<and>
   operator_pre_inc (checked throwing int8_t (validate I8)) I8 throwing 0 (start 127) =
     (Raised (OverflowError overflow_msg),
      \<lparr>objects = (\<lambda>_. \<lparr>m_t = 127\<rparr>), calls = [OverflowError overflow_msg]\<rparr>)"
  using prefix_increment_at_max [of "start 127" 0 throwing]
  by (simp add: start_def throwing_def)

text \<open>
  Under a policy that returns: construct from 127, then prefix increment. Both policy
  members are called and the stored value is \<open>-128\<close>.
\<close>

theorem prefix_increment_wraps:
  "validate I8 127 \<and>
   fst (construct I8 returning 0 127 (start 0)) = Done () \<and>
   m_t (objects (snd (construct I8 returning 0 127 (start 0))) 0) = 127 \<and>
   operator_pre_inc (checked returning int8_t (validate I8)) I8 returning 0
       (snd (construct I8 returning 0 127 (start 0))) =
     (Done (ByValue \<lparr>m_t = - 128\<rparr>),
      \<lparr>objects = (\<lambda>_. \<lparr>m_t = 0\<rparr>)(0 := \<lparr>m_t = - 128\<rparr>),
       calls = [OverflowError overflow_msg, RangeError ''Invalid value passed on assignment'']\<rparr>)"
  by (simp add: construct_def operator_pre_inc_def operator_assign_def exec_defs I8_simps
        checked_def exact_simps rejected_simps to_stored_def int8_t_def start_def returning_def)

section \<open>Postfix increment and decrement\<close>

text \<open>
  C3. Postfix increment changes no object, whatever the arithmetic layer, the variant, the
  policy and the state are. On the signed 8-bit variant holding 5, where \<open>5 + 1\<close> is
  valid, it calls no policy, returns a copy holding 5 and leaves the datum 5.
\<close>

theorem post_inc_leaves_datum:
  "objects (snd (operator_post_inc A V E this st)) = objects st \<and>
   validate I8 (5 + 1) \<and>
   operator_post_inc (checked throwing int8_t (validate I8)) I8 throwing 0 (start 5) =
     (Done (ByValue \<lparr>m_t = 5\<rparr>), start 5)"
  by (simp add: post_inc_objects)
     (simp add: operator_post_inc_def exec_defs I8_simps checked_def exact_simps
        rejected_simps start_def)

text \<open>
  C8. Postfix decrement, when it completes, hands back a reference to the object itself.
  On the signed 8-bit variant holding 5 it returns the reference and leaves the state as
  it was; after the assignment of 9 to the object, reading through the reference gives 9,
  where a copy taken before would give 5.
\<close>

theorem post_dec_returns_reference:
  "(case fst (operator_post_dec A V E this st) of
      Done r \<Rightarrow> r = ByRef this
    | Raised e \<Rightarrow> True) \<and>
   operator_post_dec (checked throwing int8_t (validate I8)) I8 throwing 0 (start 5) =
     (Done (ByRef 0), start 5) \<and>
   m_t (deref (start 5) (ByRef 0)) = 5 \<and>
   m_t (deref (snd (operator_assign I8 throwing 0 9 (start 5))) (ByRef 0)) = 9 \<and>
   m_t (deref (snd (operator_assign I8 throwing 0 9 (start 5))) (ByValue \<lparr>m_t = 5\<rparr>)) = 5"
proof -
  have "case fst (operator_post_dec A V E this st) of
      Done r \<Rightarrow> r = ByRef this
    | Raised e \<Rightarrow> True"
    by (simp add: operator_post_dec_def exec_defs
        split: prod.split outcome.split action.split)
  moreover have
    "operator_post_dec (checked throwing int8_t (validate I8)) I8 throwing 0 (start 5) =
       (Done (ByRef 0), start 5)"
    by (simp add: operator_post_dec_def exec_defs I8_simps checked_def exact_simps
        rejected_simps start_def)
  moreover have "m_t (deref (start 5) (ByRef 0)) = 5"
    "m_t (deref (snd (operator_assign I8 throwing 0 9 (start 5))) (ByRef 0)) = 9"
    "m_t (deref (snd (operator_assign I8 throwing 0 9 (start 5))) (ByValue \<lparr>m_t = 5\<rparr>)) = 5"
    by (simp_all add: operator_assign_def exec_defs I8_simps start_def to_stored_def
        int8_t_def deref_def)
  ultimately show ?thesis by blast
qed

section \<open>Unary minus\<close>

text \<open>
  The statements of unary minus evaluate \<open>0 - self\<close> with the binary subtraction: when the
  subtraction raises, so do they, with the objects untouched; when it yields \<open>r\<close>, they go
  on with \<open>operator=\<close> on \<open>r\<close> and return a copy.
\<close>

lemma neg_body_reenters_subtraction:
  "(A Sub 0 (m_t (objects st this)) = (cs, Raised e) \<longrightarrow>
      operator_neg_body A V E this st = (Raised e, st\<lparr>calls := calls st @ cs\<rparr>)) \<and>
   (A Sub 0 (m_t (objects st this)) = (cs, Done r) \<longrightarrow>
      operator_neg_body A V E this st =
        bind (operator_assign V E this r) (\<lambda>_. return_copy this) (st\<lparr>calls := calls st @ cs\<rparr>))"
  by (simp add: operator_neg_body_def get_m_t_def binary_def bind_def)

text \<open>The complement, which assigns nothing, does build for a signed stored type.\<close>

lemma compl_builds_when_signed:
  "operator_compl V E this =
     (if is_signed (stored V) then Inr (operator_compl_body V E this)
      else Inl (StaticAssertFailed ''Bitwise inversion of unsigned value is an error''))"
  by (simp add: operator_compl_def build_member_def)

text \<open>
  C9. Unary minus builds for no stored type. For an unsigned stored type it is the build
  error of its \<open>static_assert\<close>, so there is no computation and no run-time error. For a
  signed stored type it is a build error as well: the member is \<open>const\<close> and assigns to
  \<open>*this\<close>. On the signed 8-bit variant holding 5 there is therefore no \<open>0 - self\<close> to
  compute; the statements of the body, run on their own, would store and return \<open>-5\<close>.
\<close>

theorem unary_minus_never_builds:
  "operator_neg A V E this =
     Inl (if is_signed (stored V) then DiscardsQualifiers ''operator=''
          else StaticAssertFailed ''Application of unary minus to unsigned value is an error'') \<and>
   is_signed (stored I8) \<and>
   operator_neg (checked throwing int8_t (validate I8)) I8 throwing 0 =
     Inl (DiscardsQualifiers ''operator='') \<and>
   operator_neg_body (checked throwing int8_t (validate I8)) I8 throwing 0 (start 5) =
     (Done (ByValue \<lparr>m_t = - 5\<rparr>),
      \<lparr>objects = (\<lambda>_. \<lparr>m_t = 5\<rparr>)(0 := \<lparr>m_t = - 5\<rparr>), calls = []\<rparr>)"
proof -
  have build: "operator_neg A V E this =
     Inl (if is_signed (stored V) then DiscardsQualifiers ''operator=''
          else StaticAssertFailed ''Application of unary minus to unsigned value is an error'')"
    for A V E this
    by (simp add: operator_neg_def build_member_def)
  have s: "is_signed (stored I8)"
    by (simp add: I8_simps int8_t_def)
  have "operator_neg_body (checked throwing int8_t (validate I8)) I8 throwing 0 (start 5) =
     (Done (ByValue \<lparr>m_t = - 5\<rparr>),
      \<lparr>objects = (\<lambda>_. \<lparr>m_t = 5\<rparr>)(0 := \<lparr>m_t = - 5\<rparr>), calls = []\<rparr>)"
    by (simp add: operator_neg_body_def operator_assign_def exec_defs I8_simps checked_def
        exact_simps rejected_simps start_def to_stored_def int8_t_def)
  with build [of A V E this] build [of "checked throwing int8_t (validate I8)" I8 throwing 0] s
  show ?thesis by simp
qed

section \<open>Comparison\<close>

lemma less_than_cmp_value: "less_than_cmp a b = (value_of a < value_of b)"
  by (cases a; cases b) (auto simp: less_than_cmp_def value_of_def)

text \<open>
  C6. For all operands \<open>a\<close> and \<open>b\<close>, of the same or of different signedness, exactly one of
  \<open>less_than(a,b)\<close>, \<open>less_than(b,a)\<close> and \<open>equal(a,b)\<close> holds; \<open>less_than(-1, 0)\<close> is true, a
  signed \<open>-1\<close> is less than the unsigned 4294967295, and the unsigned 4294967295 is not less
  than the signed \<open>-1\<close>.
\<close>

theorem comparison_totality:
  "((less_than_cmp a b \<and> \<not> less_than_cmp b a \<and> \<not> equal_cmp a b) \<or>
    (less_than_cmp b a \<and> \<not> less_than_cmp a b \<and> \<not> equal_cmp a b) \<or>
    (equal_cmp a b \<and> \<not> less_than_cmp a b \<and> \<not> less_than_cmp b a)) \<and>
   less_than_cmp (Signed (- 1)) (Signed 0) \<and>
   less_than_cmp (Signed (- 1)) (Unsigned 0) \<and>
   less_than_cmp (Signed (- 1)) (Unsigned 4294967295) \<and>
   \<not> less_than_cmp (Unsigned 4294967295) (Signed (- 1))"
proof -
  have "value_of a < value_of b \<or> value_of b < value_of a \<or> value_of a = value_of b"
    by linarith
  then have "(less_than_cmp a b \<and> \<not> less_than_cmp b a \<and> \<not> equal_cmp a b) \<or>
    (less_than_cmp b a \<and> \<not> less_than_cmp a b \<and> \<not> equal_cmp a b) \<or>
    (equal_cmp a b \<and> \<not> less_than_cmp a b \<and> \<not> less_than_cmp b a)"
    unfolding equal_cmp_def less_than_cmp_value by auto
  moreover have "less_than_cmp (Signed (- 1)) (Signed 0)"
    "less_than_cmp (Signed (- 1)) (Unsigned 0)"
    "less_than_cmp (Signed (- 1)) (Unsigned 4294967295)"
    "\<not> less_than_cmp (Unsigned 4294967295) (Signed (- 1))"
    by (simp_all add: less_than_cmp_def)
  ultimately show ?thesis by blast
qed

text \<open>
  C7. For every SafeValue \<open>x\<close> and right-hand operand \<open>rhs\<close> of any type, whatever the three
  comparison primitives are, \<open>!=\<close> is the negation of \<open>==\<close>, \<open>>=\<close> the negation of \<open><\<close>, and
  \<open><=\<close> the negation of \<open>>\<close>.
\<close>

theorem relational_complements:
  "operator_ne C x rhs = (\<not> operator_eq C x rhs) \<and>
   operator_ge C x rhs = (\<not> operator_lt C x rhs) \<and>
   operator_le C x rhs = (\<not> operator_gt C x rhs)"
  by (simp add: operator_ne_def operator_eq_def operator_ge_def operator_lt_def
      operator_le_def operator_gt_def)

end
